theory Spec2Isabelle
  imports Main
begin

section \<open>Data model of package erreur (structured.go)\<close>

text \<open>
  A value of Go's interface type \<^verbatim>\<open>error\<close> is either the nil interface, a
  \<^verbatim>\<open>String\<close> (the package's string-based leaf error), a \<^verbatim>\<open>Structured\<close>, or
  a value of some type declared outside the package. The last kind is identified by
  a number; what its methods return is looked up in a method table (\<open>foreign_env\<close>
  below), so that a foreign \<^verbatim>\<open>Unwrap\<close> may return anything, itself included.

  \<^verbatim>\<open>Structured\<close> is the struct of the source, fields in declaration order:
  \<^verbatim>\<open>causer error\<close>, \<^verbatim>\<open>err error\<close>, \<^verbatim>\<open>fields []zap.Field\<close>.

  A \<^verbatim>\<open>zap.Field\<close> is represented by the zap constructor call that made it:
  \<^verbatim>\<open>zap.Skip()\<close>, \<^verbatim>\<open>zap.Int(k, v)\<close>, \<^verbatim>\<open>zap.String(k, v)\<close>,
  \<^verbatim>\<open>zap.Bool(k, v)\<close>, \<^verbatim>\<open>zap.Object(k, m)\<close> with a \<^verbatim>\<open>Structured\<close> as the
  marshaler, and \<^verbatim>\<open>zap.Error(e)\<close>.
\<close>

datatype error =
    NilError
  | StringError string
  | StructuredError Structured
  | ForeignError nat
and Structured =
    Structured (causer: error) (err: error) (fields: "zap_Field list")
and zap_Field =
    zap_Skip
  | zap_Int string int
  | zap_String string string
  | zap_Bool string bool
  | zap_Object string Structured
  | zap_Error error

text \<open>
  The methods of a foreign error type: the string its \<^verbatim>\<open>Error()\<close> returns, and
  its \<^verbatim>\<open>Unwrap()\<close>: \<open>None\<close> when the type has no such method (the assertion
  \<^verbatim>\<open>e.(wrapper)\<close> fails), \<open>Some e'\<close> when it has one and it returns \<open>e'\<close>.
\<close>

datatype foreign =
  Foreign (ferror: string) (funwrap: "error option")

type_synonym foreign_env = "nat \<Rightarrow> foreign"

text \<open>The zero value of the struct: \<^verbatim>\<open>var s Structured\<close>.\<close>

definition zero_Structured :: Structured where
  "zero_Structured = Structured NilError NilError []"

text \<open>
  Calling a method through a nil interface is a run-time panic (nil pointer
  dereference); it is the only panic the package can raise.
\<close>

datatype panic = NilDereference

section \<open>Constructors\<close>

definition Structure :: "error \<Rightarrow> zap_Field list \<Rightarrow> error" where
  "Structure cause fs =
     (if cause = NilError then NilError
      else StructuredError (Structured cause NilError fs))"

definition New :: "string \<Rightarrow> zap_Field list \<Rightarrow> error" where
  "New message fs = StructuredError (Structured NilError (StringError message) fs)"

definition Wrap :: "error \<Rightarrow> string \<Rightarrow> zap_Field list \<Rightarrow> error" where
  "Wrap cause message fs =
     (if cause = NilError then NilError
      else StructuredError (Structured cause (StringError message) fs))"

section \<open>Accessors and the display string\<close>

definition Unwrap :: "Structured \<Rightarrow> error" where
  "Unwrap s = causer s"

definition Cause :: "Structured \<Rightarrow> error" where
  "Cause s = causer s"

definition String_Error :: "string \<Rightarrow> string" where
  "String_Error es = es"

text \<open>
  \<open>error_Error\<close> is the dynamic dispatch of \<^verbatim>\<open>e.Error()\<close> on an interface value,
  \<open>Structured_Error\<close> the method \<^verbatim>\<open>(s Structured) Error()\<close>. In the branch with
  both parts, Go evaluates the operands of \<^verbatim>\<open>+\<close> from left to right.
\<close>

fun error_Error :: "foreign_env \<Rightarrow> error \<Rightarrow> panic + string"
  and Structured_Error :: "foreign_env \<Rightarrow> Structured \<Rightarrow> panic + string" where
  "error_Error env NilError = Inl NilDereference"
| "error_Error env (StringError es) = Inr (String_Error es)"
| "error_Error env (StructuredError s) = Structured_Error env s"
| "error_Error env (ForeignError n) = Inr (ferror (env n))"
| "Structured_Error env (Structured c e fs) =
     (if e \<noteq> NilError then
        (if c = NilError then error_Error env e
         else (case error_Error env e of
                 Inl p \<Rightarrow> Inl p
               | Inr m \<Rightarrow> (case error_Error env c of
                            Inl p \<Rightarrow> Inl p
                          | Inr cm \<Rightarrow> Inr (m @ '': '' @ cm))))
      else error_Error env c)"

definition errorOrCause :: "foreign_env \<Rightarrow> Structured \<Rightarrow> panic + string" where
  "errorOrCause env s =
     (if err s \<noteq> NilError then error_Error env (err s)
      else error_Error env (causer s))"

section \<open>Chain inspection\<close>

text \<open>
  The two type assertions of the loop in \<^verbatim>\<open>AsStructured\<close>:
  \<^verbatim>\<open>e.(Structured)\<close>, and \<^verbatim>\<open>e.(wrapper)\<close> followed by the call of
  \<^verbatim>\<open>Unwrap()\<close>. A \<^verbatim>\<open>Structured\<close> has an \<^verbatim>\<open>Unwrap\<close> method, so it is a
  wrapper too; the nil interface and a \<^verbatim>\<open>String\<close> are not.
\<close>

fun as_Structured :: "error \<Rightarrow> Structured option" where
  "as_Structured (StructuredError s) = Some s"
| "as_Structured _ = None"

fun wrapper_Unwrap :: "foreign_env \<Rightarrow> error \<Rightarrow> error option" where
  "wrapper_Unwrap env NilError = None"
| "wrapper_Unwrap env (StringError es) = None"
| "wrapper_Unwrap env (StructuredError s) = Some (Unwrap s)"
| "wrapper_Unwrap env (ForeignError n) = funwrap (env n)"

text \<open>
  The \<^verbatim>\<open>for\<close> loop of \<^verbatim>\<open>AsStructured\<close>, returning the final value of the local
  \<^verbatim>\<open>s\<close>. The loop has no bound: on a cyclic chain it does not return, which is
  the value \<open>None\<close>.
\<close>

partial_function (option) AsStructured_loop :: "foreign_env \<Rightarrow> error \<Rightarrow> Structured option" where
  "AsStructured_loop env e =
     (case as_Structured e of
        Some stre \<Rightarrow> Some stre
      | None \<Rightarrow>
          (case wrapper_Unwrap env e of
             None \<Rightarrow> Some zero_Structured
           | Some cause \<Rightarrow> AsStructured_loop env cause))"

declare AsStructured_loop.simps [code]

definition AsStructured :: "foreign_env \<Rightarrow> error \<Rightarrow> (Structured \<times> bool) option" where
  "AsStructured env e =
     (case AsStructured_loop env e of
        None \<Rightarrow> None
      | Some s \<Rightarrow> Some (s, causer s \<noteq> NilError \<or> err s \<noteq> NilError))"

definition IsStructured :: "foreign_env \<Rightarrow> error \<Rightarrow> bool option" where
  "IsStructured env e =
     (case AsStructured env e of None \<Rightarrow> None | Some (s, found) \<Rightarrow> Some found)"

definition Field :: "foreign_env \<Rightarrow> error \<Rightarrow> zap_Field option" where
  "Field env e =
     (if e = NilError then Some zap_Skip
      else (case AsStructured env e of
              None \<Rightarrow> None
            | Some (stre, ok) \<Rightarrow>
                Some (if ok then zap_Object ''error'' stre else zap_Error e)))"

section \<open>Field flattening and object serialization\<close>

text \<open>
  \<^verbatim>\<open>Fields\<close>, statement by statement: the own fields are copied; when the cause
  is not nil, a cause object is appended if the cause is a \<^verbatim>\<open>Structured\<close>, and
  the function returns in either case; only with a nil cause is \<^verbatim>\<open>AsStructured\<close>
  called.
\<close>

definition Fields :: "foreign_env \<Rightarrow> Structured \<Rightarrow> zap_Field list option" where
  "Fields env s =
     (let fs = [] @ fields s in
      if Unwrap s \<noteq> NilError then
        (case as_Structured (Unwrap s) of
           Some stre \<Rightarrow> Some (fs @ [zap_Object ''cause'' stre])
         | None \<Rightarrow> Some fs)
      else
        (case AsStructured env (Unwrap s) of
           None \<Rightarrow> None
         | Some (stre, ok) \<Rightarrow>
             if ok then Some (fs @ [zap_Object ''cause'' stre]) else Some fs))"

text \<open>
  The object encoder is whatever the caller passes in; the model records the calls
  made on it, in order: \<^verbatim>\<open>oe.AddString(k, v)\<close> and \<^verbatim>\<open>field.AddTo(oe)\<close>.
\<close>

datatype encoder_call =
    AddString string string
  | AddTo zap_Field

definition MarshalLogObject ::
  "foreign_env \<Rightarrow> Structured \<Rightarrow> encoder_call list \<Rightarrow> (panic + encoder_call list) option" where
  "MarshalLogObject env s oe =
     (case errorOrCause env s of
        Inl p \<Rightarrow> Some (Inl p)
      | Inr m \<Rightarrow>
          (case Fields env s of
             None \<Rightarrow> None
           | Some fs \<Rightarrow> Some (Inr ((oe @ [AddString ''msg'' m]) @ map AddTo fs))))"

text \<open>
  \<^verbatim>\<open>entry\<close> is what \<^verbatim>\<open>JSONBuffer\<close> hands to zap's JSON encoder: a
  \<^verbatim>\<open>zapcore.Entry\<close> in which only \<^verbatim>\<open>Message\<close> is set, and the field list. The
  encoder itself and the defaults of its configuration belong to zap.
\<close>

definition entry ::
  "foreign_env \<Rightarrow> Structured \<Rightarrow> (panic + string \<times> zap_Field list) option" where
  "entry env s =
     (case errorOrCause env s of
        Inl p \<Rightarrow> Some (Inl p)
      | Inr m \<Rightarrow>
          (case Fields env s of
             None \<Rightarrow> None
           | Some fs \<Rightarrow> Some (Inr (m, fs))))"

section \<open>The unwrap chain of an error\<close>

text \<open>
  \<open>unwrap_chain env e es\<close>: the walk \<^verbatim>\<open>e, e.Unwrap(), e.Unwrap().Unwrap(), ...\<close>
  comes to an end, and \<open>es\<close> lists the values it visits, the last one being the
  first that is not a wrapper (the nil interface, a \<^verbatim>\<open>String\<close>, or a foreign
  error without \<^verbatim>\<open>Unwrap\<close>). An error whose chain is cyclic has no such list.
\<close>

inductive unwrap_chain :: "foreign_env \<Rightarrow> error \<Rightarrow> error list \<Rightarrow> bool"
  for env :: foreign_env where
    chain_end: "wrapper_Unwrap env e = None \<Longrightarrow> unwrap_chain env e [e]"
  | chain_step: "wrapper_Unwrap env e = Some e' \<Longrightarrow> unwrap_chain env e' es
                 \<Longrightarrow> unwrap_chain env e (e # es)"

code_pred unwrap_chain .

text \<open>The first \<^verbatim>\<open>Structured\<close> in a list of errors, if there is one.\<close>

fun first_Structured :: "error list \<Rightarrow> Structured option" where
  "first_Structured [] = None"
| "first_Structured (e # es) =
     (case as_Structured e of Some s \<Rightarrow> Some s | None \<Rightarrow> first_Structured es)"

text \<open>
  A method table for the examples: foreign error 0 wraps a structured error, 1 wraps
  the zero \<^verbatim>\<open>Structured\<close>, 2 unwraps to itself, 3 wraps the plain leaf 4, and
  every other one has no \<^verbatim>\<open>Unwrap\<close> method.
\<close>

definition example_env :: foreign_env where
  "example_env n =
     (if n = 0 then Foreign ''read failed'' (Some (New ''inner'' [zap_Int ''code'' 7]))
      else if n = 1 then Foreign ''wraps empty'' (Some (StructuredError zero_Structured))
      else if n = 2 then Foreign ''cyclic'' (Some (ForeignError 2))
      else if n = 3 then Foreign ''outer io'' (Some (ForeignError 4))
      else Foreign ''plain'' None)"

section \<open>The loop of AsStructured\<close>

text \<open>One round of the loop, by the dynamic type of the inspected value.\<close>

lemma AsStructured_loop_StructuredError [simp]:
  "AsStructured_loop env (StructuredError s) = Some s"
  by (subst AsStructured_loop.simps) simp

lemma AsStructured_loop_NilError [simp]:
  "AsStructured_loop env NilError = Some zero_Structured"
  by (subst AsStructured_loop.simps) simp

lemma AsStructured_loop_StringError [simp]:
  "AsStructured_loop env (StringError es) = Some zero_Structured"
  by (subst AsStructured_loop.simps) simp

lemma AsStructured_loop_ForeignError:
  "AsStructured_loop env (ForeignError n) =
     (case funwrap (env n) of
        None \<Rightarrow> Some zero_Structured
      | Some cause \<Rightarrow> AsStructured_loop env cause)"
  by (subst AsStructured_loop.simps) simp

text \<open>
  On a chain that ends, the loop returns: the first \<^verbatim>\<open>Structured\<close> on the chain,
  or the zero value when the chain has none. Rule induction on the chain.
\<close>

lemma AsStructured_loop_chain:
  assumes "unwrap_chain env e es"
  shows "AsStructured_loop env e =
           Some (case first_Structured es of None \<Rightarrow> zero_Structured | Some s \<Rightarrow> s)"
  using assms
proof (induction rule: unwrap_chain.induct)
  case (chain_end e)
  then show ?case by (cases e) (simp_all add: AsStructured_loop_ForeignError)
next
  case (chain_step e e' es)
  then show ?case by (cases e) (simp_all add: AsStructured_loop_ForeignError)
qed

text \<open>
  On the chain of foreign error 2, which unwraps to itself, the loop does not return.
  The proof is by the fixpoint induction rule of the loop: no finite unfolding
  yields a result.
\<close>

lemma AsStructured_loop_cyclic:
  "AsStructured_loop example_env (ForeignError 2) = None"
proof (cases "AsStructured_loop example_env (ForeignError 2)")
  case None
  then show ?thesis .
next
  case (Some y)
  have "\<not> (example_env = example_env \<and> ForeignError 2 = ForeignError 2)"
  proof (rule AsStructured_loop.raw_induct
      [where P = "\<lambda>ev x s. \<not> (ev = example_env \<and> x = ForeignError 2)", OF _ Some])
    fix f ev x s
    assume IH: "\<And>ev x s. f ev x = Some s \<Longrightarrow> \<not> (ev = example_env \<and> x = ForeignError 2)"
      and step: "(case as_Structured x of
                    None \<Rightarrow> (case wrapper_Unwrap ev x of
                              None \<Rightarrow> Some zero_Structured
                            | Some cause \<Rightarrow> f ev cause)
                  | Some stre \<Rightarrow> Some stre) = Some s"
    show "\<not> (ev = example_env \<and> x = ForeignError 2)"
    proof
      assume "ev = example_env \<and> x = ForeignError 2"
      with step have "f example_env (ForeignError 2) = Some s"
        by (simp add: example_env_def)
      with IH show False by blast
    qed
  qed
  then show ?thesis by simp
qed

section \<open>Fields\<close>

text \<open>
  \<^verbatim>\<open>Fields\<close> always returns: \<^verbatim>\<open>AsStructured\<close> is only reached with the nil
  interface, where its loop stops in the first round.
\<close>

lemma Fields_total: "\<exists>fs. Fields env s = Some fs"
  by (simp add: Fields_def Let_def AsStructured_def Unwrap_def zero_Structured_def
      split: option.splits)

text \<open>
  With a cause that is not a \<^verbatim>\<open>Structured\<close> (nil or not), the result is the own
  field list and nothing else: the \<^verbatim>\<open>return fs\<close> of the first branch is taken for
  every non-nil cause, and for the nil cause nothing is found.
\<close>

lemma Fields_non_Structured_cause:
  "as_Structured (causer s) = None \<Longrightarrow> Fields env s = Some (fields s)"
  by (simp add: Fields_def Let_def AsStructured_def Unwrap_def zero_Structured_def
      split: option.splits)

text \<open>
  So the result of \<^verbatim>\<open>Fields\<close> is decided by the immediate cause alone: the own
  fields, followed by one \<^verbatim>\<open>"cause"\<close> object exactly when the immediate cause is a
  \<^verbatim>\<open>Structured\<close>.
\<close>

lemma Fields_eq:
  "Fields env s =
     Some (fields s @
           (case as_Structured (causer s) of
              None \<Rightarrow> []
            | Some stre \<Rightarrow> [zap_Object ''cause'' stre]))"
  by (cases "causer s")
    (simp_all add: Fields_def Let_def AsStructured_def Unwrap_def zero_Structured_def)

lemma entry_eq:
  "entry env s =
     Some (case errorOrCause env s of
             Inl p \<Rightarrow> Inl p
           | Inr m \<Rightarrow>
               Inr (m, fields s @
                       (case as_Structured (causer s) of
                          None \<Rightarrow> []
                        | Some stre \<Rightarrow> [zap_Object ''cause'' stre])))"
  by (simp add: entry_def Fields_eq split: sum.splits)

text \<open>
  Claim C1, evaluated where it fails. The claim: when the cause of \<open>s\<close> is present
  and is not a \<^verbatim>\<open>Structured\<close>, \<^verbatim>\<open>Fields\<close> searches the cause's unwrap chain and
  appends a \<^verbatim>\<open>"cause"\<close> object for the first \<^verbatim>\<open>Structured\<close> found there. The
  code at \<^verbatim>\<open>Structure(w, zap.String("k", "v"))\<close>, where \<open>w\<close> is a foreign error
  whose \<^verbatim>\<open>Unwrap\<close> returns \<^verbatim>\<open>New("inner", zap.Int("code", 7))\<close>:
  \<^verbatim>\<open>AsStructured(w)\<close> finds the inner error, and \<^verbatim>\<open>Fields\<close> returns the own
  field alone, with no cause object.
\<close>

theorem Fields_skips_chain_search:
  "AsStructured example_env (ForeignError 0) =
     Some (Structured NilError (StringError ''inner'') [zap_Int ''code'' 7], True) \<and>
   Fields example_env (Structured (ForeignError 0) NilError [zap_String ''k'' ''v'']) =
     Some [zap_String ''k'' ''v'']"
  by (simp add: Fields_def Unwrap_def AsStructured_def AsStructured_loop_ForeignError
      example_env_def New_def)

theorem Fields_skips_chain_search_witness:
  "Fields example_env (Structured (ForeignError 0) NilError [zap_String ''k'' ''v'']) \<noteq>
     Some [zap_String ''k'' ''v'',
           zap_Object ''cause''
             (Structured NilError (StringError ''inner'') [zap_Int ''code'' 7])]"
  using Fields_skips_chain_search by simp

section \<open>Constructors and accessors\<close>

text \<open>
  Claim C2: \<^verbatim>\<open>Structure(nil, fields...)\<close> and \<^verbatim>\<open>Wrap(nil, message, fields...)\<close>
  return nil, for every message and every field list; for every non-nil cause both
  return a non-nil structured error that holds the cause.
\<close>

theorem Structure_Wrap_nil_propagation:
  "Structure NilError fs = NilError \<and>
   Wrap NilError message fs = NilError \<and>
   (cause \<noteq> NilError \<longrightarrow>
      Structure cause fs = StructuredError (Structured cause NilError fs) \<and>
      Wrap cause message fs = StructuredError (Structured cause (StringError message) fs) \<and>
      Structure cause fs \<noteq> NilError \<and> Wrap cause message fs \<noteq> NilError \<and>
      Unwrap (Structured cause NilError fs) = cause \<and>
      Unwrap (Structured cause (StringError message) fs) = cause)"
  by (simp add: Structure_def Wrap_def Unwrap_def)

theorem Structure_Wrap_nil_propagation_witness:
  "StringError ''eof'' \<noteq> NilError \<and>
   Structure (StringError ''eof'') [zap_Int ''n'' 1] =
     StructuredError (Structured (StringError ''eof'') NilError [zap_Int ''n'' 1]) \<and>
   Wrap (StringError ''eof'') ''read'' [] =
     StructuredError (Structured (StringError ''eof'') (StringError ''read'') [])"
  using Structure_Wrap_nil_propagation [of "[zap_Int ''n'' 1]" "''read''" "StringError ''eof''"]
    Structure_Wrap_nil_propagation [of "[]" "''read''" "StringError ''eof''"]
  by simp

text \<open>
  Claim C3: the display string of a \<^verbatim>\<open>Structured\<close> is the own message alone when
  the cause is absent; the own message, a colon and a space, then the display string
  of the cause when both are present; the display string of the cause, unchanged,
  when the own message is absent (a panic of the cause's \<^verbatim>\<open>Error()\<close> included).
  And \<^verbatim>\<open>Wrap(Wrap(New("a"), "b"), "c").Error()\<close> is \<^verbatim>\<open>"c: b: a"\<close>.
\<close>

theorem Structured_Error_cases:
  "(err s \<noteq> NilError \<longrightarrow> causer s = NilError \<longrightarrow>
      Structured_Error env s = error_Error env (err s)) \<and>
   (err s \<noteq> NilError \<longrightarrow> causer s \<noteq> NilError \<longrightarrow>
      error_Error env (err s) = Inr m \<longrightarrow> error_Error env (causer s) = Inr c \<longrightarrow>
      Structured_Error env s = Inr (m @ '': '' @ c)) \<and>
   (err s = NilError \<longrightarrow> Structured_Error env s = error_Error env (causer s)) \<and>
   error_Error env (Wrap (Wrap (New ''a'' []) ''b'' []) ''c'' []) = Inr ''c: b: a''"
  by (cases s) (simp add: Wrap_def New_def String_Error_def)

theorem Structured_Error_cases_witness:
  "Structured_Error example_env (Structured NilError (StringError ''m'') []) = Inr ''m'' \<and>
   Structured_Error example_env
     (Structured (ForeignError 0) (StringError ''outer'') []) = Inr ''outer: read failed'' \<and>
   Structured_Error example_env (Structured (ForeignError 0) NilError []) = Inr ''read failed''"
  using Structured_Error_cases
      [of "Structured NilError (StringError ''m'') []" example_env]
    Structured_Error_cases
      [of "Structured (ForeignError 0) (StringError ''outer'') []" example_env
          "''outer''" "''read failed''"]
    Structured_Error_cases
      [of "Structured (ForeignError 0) NilError []" example_env]
  by (simp add: example_env_def String_Error_def)

text \<open>
  Claim C4: for every non-nil cause and every field list, the result of
  \<^verbatim>\<open>Structure(cause, fields...)\<close> is a \<^verbatim>\<open>Structured\<close> whose \<^verbatim>\<open>Unwrap()\<close> is the
  cause and whose \<^verbatim>\<open>Error()\<close> is the cause's \<^verbatim>\<open>Error()\<close>, unchanged.
\<close>

theorem Structure_preserves_cause:
  "cause \<noteq> NilError \<Longrightarrow>
     \<exists>s. Structure cause fs = StructuredError s \<and>
         Unwrap s = cause \<and>
         Structured_Error env s = error_Error env cause \<and>
         error_Error env (Structure cause fs) = error_Error env cause"
  by (simp add: Structure_def Unwrap_def)

theorem Structure_preserves_cause_witness:
  "StringError ''disk full'' \<noteq> NilError \<and>
   (\<exists>s. Structure (StringError ''disk full'') [zap_Int ''n'' 1] = StructuredError s \<and>
        Unwrap s = StringError ''disk full'' \<and>
        Structured_Error example_env s = Inr ''disk full'' \<and>
        error_Error example_env (Structure (StringError ''disk full'') [zap_Int ''n'' 1]) =
          Inr ''disk full'')"
  using Structure_preserves_cause
      [of "StringError ''disk full''" "[zap_Int ''n'' 1]" example_env]
  by (simp add: String_Error_def)

text \<open>
  Claim C10: the two cause accessors agree: \<^verbatim>\<open>s.Cause()\<close> returns the same error
  value as \<^verbatim>\<open>s.Unwrap()\<close>.
\<close>

theorem Cause_eq_Unwrap: "Cause s = Unwrap s"
  by (simp add: Cause_def Unwrap_def)

section \<open>Object serialization\<close>

text \<open>
  Claim C5: \<^verbatim>\<open>MarshalLogObject\<close> first writes the key \<^verbatim>\<open>"msg"\<close>, with the own
  message when it is set and otherwise with the \<^verbatim>\<open>Error()\<close> string of the immediate
  cause, and then adds every field that \<^verbatim>\<open>Fields()\<close> returns, in order. (\<open>oe\<close> is
  what the encoder had received before the call.)
\<close>

theorem MarshalLogObject_msg_then_Fields:
  "\<exists>fs. Fields env s = Some fs \<and>
     (err s \<noteq> NilError \<longrightarrow> error_Error env (err s) = Inr m \<longrightarrow>
        errorOrCause env s = Inr m \<and>
        MarshalLogObject env s oe = Some (Inr (oe @ AddString ''msg'' m # map AddTo fs))) \<and>
     (err s = NilError \<longrightarrow> error_Error env (causer s) = Inr m \<longrightarrow>
        errorOrCause env s = Inr m \<and>
        MarshalLogObject env s oe = Some (Inr (oe @ AddString ''msg'' m # map AddTo fs)))"
proof -
  obtain fs where fs: "Fields env s = Some fs"
    using Fields_total by blast
  then show ?thesis
    by (simp add: MarshalLogObject_def errorOrCause_def)
qed

theorem MarshalLogObject_msg_then_Fields_witness:
  "MarshalLogObject example_env
     (Structured (ForeignError 3) (StringError ''save failed'') [zap_Int ''n'' 1]) [] =
     Some (Inr [AddString ''msg'' ''save failed'', AddTo (zap_Int ''n'' 1)]) \<and>
   MarshalLogObject example_env
     (Structured (Wrap (New ''a'' []) ''b'' [zap_Bool ''x'' True]) NilError [zap_Int ''n'' 1]) [] =
     Some (Inr [AddString ''msg'' ''b: a'', AddTo (zap_Int ''n'' 1),
                AddTo (zap_Object ''cause''
                  (Structured (New ''a'' []) (StringError ''b'') [zap_Bool ''x'' True]))])"
  using MarshalLogObject_msg_then_Fields
      [of example_env "Structured (ForeignError 3) (StringError ''save failed'') [zap_Int ''n'' 1]"
          "''save failed''" "[]"]
    MarshalLogObject_msg_then_Fields
      [of example_env
          "Structured (Wrap (New ''a'' []) ''b'' [zap_Bool ''x'' True]) NilError [zap_Int ''n'' 1]"
          "''b: a''" "[]"]
  by (simp add: Fields_def Unwrap_def Wrap_def New_def String_Error_def)

section \<open>AsStructured, IsStructured and Field on chains\<close>

text \<open>
  Claim C7 as stated fails: the claim has \<^verbatim>\<open>found = true\<close> whenever a
  \<^verbatim>\<open>Structured\<close> exists on the chain. The zero \<^verbatim>\<open>Structured\<close> is one, it is the
  first on its own chain, and \<^verbatim>\<open>AsStructured\<close> returns it with \<^verbatim>\<open>found = false\<close>.
\<close>

theorem AsStructured_counterexample:
  "unwrap_chain example_env (StructuredError zero_Structured)
     [StructuredError zero_Structured, NilError] \<and>
   first_Structured [StructuredError zero_Structured, NilError] = Some zero_Structured \<and>
   AsStructured example_env (StructuredError zero_Structured) = Some (zero_Structured, False) \<and>
   IsStructured example_env (StructuredError zero_Structured) = Some False"
proof -
  have "unwrap_chain example_env (StructuredError zero_Structured)
          [StructuredError zero_Structured, NilError]"
    by (rule chain_step [where e' = NilError])
      (simp_all add: Unwrap_def zero_Structured_def chain_end)
  then show ?thesis
    by (simp add: IsStructured_def AsStructured_def zero_Structured_def)
qed

text \<open>
  Claim C7, amended: for every error whose unwrap chain ends, \<^verbatim>\<open>AsStructured\<close>
  returns, and \<^verbatim>\<open>IsStructured\<close> returns the flag it reports. When the chain has no
  \<^verbatim>\<open>Structured\<close>, the result is the zero value with \<^verbatim>\<open>found = false\<close>. When it
  has one, the result is the first of them, and \<^verbatim>\<open>found\<close> is true exactly when
  that value has a cause or an own message.
\<close>

theorem AsStructured_finite_chain:
  assumes "unwrap_chain env e es"
  shows "(\<exists>s found. AsStructured env e = Some (s, found) \<and> IsStructured env e = Some found) \<and>
         (first_Structured es = None \<longrightarrow>
            AsStructured env e = Some (zero_Structured, False) \<and>
            IsStructured env e = Some False) \<and>
         (\<forall>s. first_Structured es = Some s \<longrightarrow>
            AsStructured env e = Some (s, causer s \<noteq> NilError \<or> err s \<noteq> NilError) \<and>
            IsStructured env e = Some (causer s \<noteq> NilError \<or> err s \<noteq> NilError))"
  using AsStructured_loop_chain [OF assms]
  by (cases "first_Structured es")
    (auto simp: AsStructured_def IsStructured_def zero_Structured_def)

theorem AsStructured_finite_chain_witness:
  "unwrap_chain example_env (ForeignError 0)
     [ForeignError 0, New ''inner'' [zap_Int ''code'' 7], NilError] \<and>
   AsStructured example_env (ForeignError 0) =
     Some (Structured NilError (StringError ''inner'') [zap_Int ''code'' 7], True) \<and>
   IsStructured example_env (ForeignError 0) = Some True \<and>
   unwrap_chain example_env (ForeignError 3) [ForeignError 3, ForeignError 4] \<and>
   AsStructured example_env (ForeignError 3) = Some (zero_Structured, False) \<and>
   IsStructured example_env (ForeignError 3) = Some False"
proof -
  have c0: "unwrap_chain example_env (ForeignError 0)
              [ForeignError 0, New ''inner'' [zap_Int ''code'' 7], NilError]"
    by (intro chain_step [where e' = "New ''inner'' [zap_Int ''code'' 7]"]
          chain_step [where e' = NilError] chain_end)
      (simp_all add: example_env_def New_def Unwrap_def)
  have c3: "unwrap_chain example_env (ForeignError 3) [ForeignError 3, ForeignError 4]"
    by (intro chain_step [where e' = "ForeignError 4"] chain_end)
      (simp_all add: example_env_def)
  show ?thesis
    using c0 c3 AsStructured_finite_chain [OF c0] AsStructured_finite_chain [OF c3]
    by (simp add: New_def)
qed

text \<open>
  Claim C8: a \<^verbatim>\<open>Structured\<close> with neither an own message nor a cause is not
  reported as found: not when it is the inspected value itself, whatever its fields,
  and not when it is the first \<^verbatim>\<open>Structured\<close> on the chain of the inspected value.
\<close>

theorem empty_Structured_not_found:
  "AsStructured env (StructuredError (Structured NilError NilError fs)) =
     Some (Structured NilError NilError fs, False) \<and>
   IsStructured env (StructuredError (Structured NilError NilError fs)) = Some False \<and>
   (unwrap_chain env e es \<longrightarrow> first_Structured es = Some s \<longrightarrow>
      causer s = NilError \<longrightarrow> err s = NilError \<longrightarrow>
      AsStructured env e = Some (s, False) \<and> IsStructured env e = Some False)"
proof -
  have direct: "AsStructured env (StructuredError (Structured NilError NilError fs)) =
      Some (Structured NilError NilError fs, False)"
    by (simp add: AsStructured_def)
  have "AsStructured env e = Some (s, False)"
    if "unwrap_chain env e es" "first_Structured es = Some s"
      "causer s = NilError" "err s = NilError"
    using AsStructured_loop_chain [OF that(1)] that(2-4)
    by (simp add: AsStructured_def)
  with direct show ?thesis
    by (simp add: IsStructured_def)
qed

theorem empty_Structured_not_found_witness:
  "unwrap_chain example_env (ForeignError 1)
     [ForeignError 1, StructuredError zero_Structured, NilError] \<and>
   first_Structured [ForeignError 1, StructuredError zero_Structured, NilError] =
     Some zero_Structured \<and>
   causer zero_Structured = NilError \<and> err zero_Structured = NilError \<and>
   AsStructured example_env (ForeignError 1) = Some (zero_Structured, False) \<and>
   IsStructured example_env (ForeignError 1) = Some False"
proof -
  have c1: "unwrap_chain example_env (ForeignError 1)
              [ForeignError 1, StructuredError zero_Structured, NilError]"
    by (intro chain_step [where e' = "StructuredError zero_Structured"]
          chain_step [where e' = NilError] chain_end)
      (simp_all add: example_env_def zero_Structured_def Unwrap_def)
  show ?thesis
    using c1 empty_Structured_not_found
      [of example_env "[]" "ForeignError 1"
          "[ForeignError 1, StructuredError zero_Structured, NilError]" zero_Structured]
    by (simp add: zero_Structured_def)
qed

text \<open>
  Claim C9 as stated fails: the claim has an object field whenever the error is a
  \<^verbatim>\<open>Structured\<close>. For the zero \<^verbatim>\<open>Structured\<close>, \<^verbatim>\<open>Field\<close> returns
  \<^verbatim>\<open>zap.Error(err)\<close>.
\<close>

theorem Field_counterexample:
  "as_Structured (StructuredError zero_Structured) = Some zero_Structured \<and>
   Field example_env (StructuredError zero_Structured) =
     Some (zap_Error (StructuredError zero_Structured)) \<and>
   Field example_env (StructuredError zero_Structured) \<noteq>
     Some (zap_Object ''error'' zero_Structured)"
  by (simp add: Field_def AsStructured_def zero_Structured_def)

text \<open>
  Claim C9, amended: \<^verbatim>\<open>Field(nil)\<close> is \<^verbatim>\<open>zap.Skip()\<close>. For a non-nil error
  whose unwrap chain ends, \<^verbatim>\<open>Field\<close> returns \<^verbatim>\<open>zap.Object("error", s)\<close> when
  \<open>s\<close> is the first \<^verbatim>\<open>Structured\<close> on the chain and has a cause or an own message,
  and \<^verbatim>\<open>zap.Error(err)\<close> otherwise: when the chain has no \<^verbatim>\<open>Structured\<close>, or
  the first one has neither.
\<close>

theorem Field_cases:
  "Field env NilError = Some zap_Skip \<and>
   (e \<noteq> NilError \<longrightarrow> unwrap_chain env e es \<longrightarrow>
      (first_Structured es = None \<longrightarrow> Field env e = Some (zap_Error e)) \<and>
      (\<forall>s. first_Structured es = Some s \<longrightarrow>
         Field env e =
           Some (if causer s \<noteq> NilError \<or> err s \<noteq> NilError
                 then zap_Object ''error'' s else zap_Error e)))"
proof -
  have nil: "Field env NilError = Some zap_Skip"
    by (simp add: Field_def)
  have "(first_Structured es = None \<longrightarrow> Field env e = Some (zap_Error e)) \<and>
        (\<forall>s. first_Structured es = Some s \<longrightarrow>
           Field env e =
             Some (if causer s \<noteq> NilError \<or> err s \<noteq> NilError
                   then zap_Object ''error'' s else zap_Error e))"
    if "e \<noteq> NilError" "unwrap_chain env e es"
    using AsStructured_loop_chain [OF that(2)] that(1)
    by (cases "first_Structured es")
      (simp_all add: Field_def AsStructured_def zero_Structured_def)
  with nil show ?thesis by blast
qed

theorem Field_cases_witness:
  "Field example_env NilError = Some zap_Skip \<and>
   ForeignError 0 \<noteq> NilError \<and>
   unwrap_chain example_env (ForeignError 0)
     [ForeignError 0, New ''inner'' [zap_Int ''code'' 7], NilError] \<and>
   Field example_env (ForeignError 0) =
     Some (zap_Object ''error''
             (Structured NilError (StringError ''inner'') [zap_Int ''code'' 7])) \<and>
   unwrap_chain example_env (ForeignError 3) [ForeignError 3, ForeignError 4] \<and>
   Field example_env (ForeignError 3) = Some (zap_Error (ForeignError 3))"
proof -
  have c0: "unwrap_chain example_env (ForeignError 0)
              [ForeignError 0, New ''inner'' [zap_Int ''code'' 7], NilError]"
    by (intro chain_step [where e' = "New ''inner'' [zap_Int ''code'' 7]"]
          chain_step [where e' = NilError] chain_end)
      (simp_all add: example_env_def New_def Unwrap_def)
  have c3: "unwrap_chain example_env (ForeignError 3) [ForeignError 3, ForeignError 4]"
    by (intro chain_step [where e' = "ForeignError 4"] chain_end)
      (simp_all add: example_env_def)
  show ?thesis
    using c0 c3
      Field_cases [of example_env "ForeignError 0"
        "[ForeignError 0, New ''inner'' [zap_Int ''code'' 7], NilError]"]
      Field_cases [of example_env "ForeignError 3" "[ForeignError 3, ForeignError 4]"]
    by (simp add: New_def)
qed

end
